theory Spec2Isabelle
  imports Complex_Main "HOL-Library.Word"
begin

section \<open>Library functions the runner calls\<close>

text \<open>
  The runner (\<^verbatim>\<open>cmd/server/runner.go\<close>) cuts script output with \<^verbatim>\<open>strings.Contains\<close>,
  \<^verbatim>\<open>strings.Split\<close> and \<^verbatim>\<open>strings.SplitN\<close>, always with a separator of one byte
  (\<^verbatim>\<open>"|"\<close>, \<^verbatim>\<open>","\<close>, \<^verbatim>\<open>"="\<close>, the newline). A Go string is a byte sequence, here a
  \<^typ>\<open>string\<close>; the separator is a \<^typ>\<open>char\<close>.

  \<open>genSplit s sep n\<close> follows the loop of Go's \<^verbatim>\<open>strings.genSplit\<close>: it cuts at most
  \<open>n - 1\<close> times at the leftmost separator and returns the rest unsplit as the last
  piece; \<open>n = 0\<close> gives no piece at all. \<^verbatim>\<open>Split\<close> asks for one piece more than there are
  separators, \<^verbatim>\<open>SplitN\<close> passes its bound on.
\<close>

definition Contains :: "string \<Rightarrow> char \<Rightarrow> bool" where
  "Contains s sep = (sep \<in> set s)"

fun genSplit :: "string \<Rightarrow> char \<Rightarrow> nat \<Rightarrow> string list" where
  "genSplit s sep 0 = []"
| "genSplit s sep (Suc 0) = [s]"
| "genSplit s sep (Suc (Suc n)) =
     (if sep \<in> set s
      then takeWhile (\<lambda>c. c \<noteq> sep) s # genSplit (tl (dropWhile (\<lambda>c. c \<noteq> sep) s)) sep (Suc n)
      else [s])"

definition Split :: "string \<Rightarrow> char \<Rightarrow> string list" where
  "Split s sep = genSplit s sep (count_list s sep + 1)"

definition SplitN :: "string \<Rightarrow> char \<Rightarrow> nat \<Rightarrow> string list" where
  "SplitN s sep n = genSplit s sep n"

text \<open>
  Modelled from the spec: \<^verbatim>\<open>strconv.ParseFloat\<close> belongs to Go's library and is not under
  \<^verbatim>\<open>src/\<close>. The spec says of it: the text is "parsed as floating point; parse failure
  yields value 0". The reading of a text as a number is the parameter \<open>pf\<close> (\<open>None\<close>: the
  text is no number); \<open>ParseFloat\<close> returns Go's pair of the number and whether an error
  is reported. The type \<open>'v\<close> stands for \<^verbatim>\<open>float64\<close>. For a text that denotes a number
  beyond the range of \<^verbatim>\<open>float64\<close> Go returns an infinity together with an error; the
  runner discards the error, so such a text counts as read, \<open>pf\<close> giving the infinity.
\<close>

definition ParseFloat :: "(string \<Rightarrow> 'v option) \<Rightarrow> string \<Rightarrow> ('v::zero) \<times> bool" where
  "ParseFloat pf s = (case pf s of Some v \<Rightarrow> (v, False) | None \<Rightarrow> (0, True))"

section \<open>The result parser\<close>

text \<open>
  A run-time panic of the Go program is a value of the model. The ones the runner can
  reach: an index beyond the end of a slice, the type assertion
  \<^verbatim>\<open>check.metric.(*prometheus.GaugeVec)\<close> on a nil interface, and the panics of the
  metrics client (\<^verbatim>\<open>MustRegister\<close>, \<^verbatim>\<open>With\<close>).
\<close>

datatype panic =
    IndexOutOfRange
  | NilInterfaceConversion
  | RegisterFailed
  | InconsistentLabels

type_synonym labels = "string \<rightharpoonup> string"

text \<open>
  The loop of \<^verbatim>\<open>convertResult\<close> over the label items:
  \<^verbatim>\<open>splitLabel := strings.SplitN(label, "=", 2); labels[splitLabel[0]] = splitLabel[1]\<close>.
  Reading \<^verbatim>\<open>splitLabel[1]\<close> panics when the item holds no \<^verbatim>\<open>=\<close>.
\<close>

fun addLabels :: "string list \<Rightarrow> labels \<Rightarrow> panic + labels" where
  "addLabels [] labels = Inr labels"
| "addLabels (label # rest) labels =
     (case SplitN label CHR ''='' 2 of
        k # v # _ \<Rightarrow> addLabels rest (labels(k \<mapsto> v))
      | _ \<Rightarrow> Inl IndexOutOfRange)"

definition convertResult :: "(string \<Rightarrow> 'v option) \<Rightarrow> string \<Rightarrow> panic + ('v::zero) \<times> labels" where
  "convertResult pf result =
     (if Contains result CHR ''|'' then
        (case Split result CHR ''|'' of
           val # labelText # _ \<Rightarrow>
             (case addLabels (Split labelText CHR '','') Map.empty of
                Inl p \<Rightarrow> Inl p
              | Inr labels \<Rightarrow> Inr (fst (ParseFloat pf val), labels))
         | _ \<Rightarrow> Inl IndexOutOfRange)
      else Inr (fst (ParseFloat pf result), Map.empty))"

section \<open>Checks, the metric sink and the log\<close>

text \<open>
  The declaration of \<^verbatim>\<open>Check\<close> is not in \<^verbatim>\<open>runner.go\<close>; the record holds the fields the
  runner reads and writes, under their names in the code. \<^verbatim>\<open>Interval\<close> is held as the
  integer it denotes, and \<^verbatim>\<open>int64(check.Interval)\<close> is \<^const>\<open>word_of_int\<close>; \<^verbatim>\<open>nextrun\<close>
  is an \<^verbatim>\<open>int64\<close>, a 64-bit word read as signed. \<^verbatim>\<open>metric\<close> is an \<^verbatim>\<open>interface{}\<close> that
  is nil or points to the gauge vector the check created. The channel
  \<^verbatim>\<open>stoppedchan\<close> only synchronises goroutines and is left out.

  Go's \<^verbatim>\<open>map[string]string\<close> is \<^typ>\<open>labels\<close>. Every map the runner stores comes from
  \<^verbatim>\<open>make\<close> in \<^verbatim>\<open>convertResult\<close>, so none is nil and \<^verbatim>\<open>reflect.DeepEqual\<close> on two of them
  is equality of their entries.
\<close>

record 'v GaugeVec =
  gv_name :: string
  gv_help :: string
  gv_labelNames :: "string set"
  gv_children :: "labels \<rightharpoonup> 'v"

record 'v Check =
  Name :: string
  File :: string
  Help :: string
  MetricType :: string
  Interval :: int
  Active :: bool
  nextrun :: "64 word"
  resultCurrent :: "labels list"
  resultLast :: "labels list"
  metric :: "'v GaugeVec option"

text \<open>
  What a function of the runner can change besides its check: the default registry of
  the metrics client, and the log. The registry holds a pointer to the gauge vector
  that \<^verbatim>\<open>check.metric\<close> points to; the model keeps the vector once, in the check, and
  the registry as the set of the names registered. Of the log, the warnings
  (\<^verbatim>\<open>log.Warn\<close>, \<^verbatim>\<open>log.Warnf\<close>) are kept, in order; the \<^verbatim>\<open>Trace\<close>, \<^verbatim>\<open>Debug\<close> and \<^verbatim>\<open>Info\<close>
  lines change nothing else and are dropped.
\<close>

record 'v world =
  check :: "'v Check"
  registry :: "string set"
  warnings :: "string list"

text \<open>
  Modelled from the spec: the metrics client (\<^verbatim>\<open>prometheus/client_golang\<close>) is not under
  \<^verbatim>\<open>src/\<close>. The spec gives the sink as \<^verbatim>\<open>createSeries(name, labelNames)\<close>,
  \<^verbatim>\<open>setValue(handle, labelValues, value)\<close>, \<^verbatim>\<open>deleteSeries(handle, labelValues) -> found\<close>
  and \<^verbatim>\<open>destroySeries(handle)\<close>. The calls of the runner that stand for them:
  \<^verbatim>\<open>prometheus.NewGaugeVec(opts, labelNames)\<close> with \<^verbatim>\<open>prometheus.MustRegister(vec)\<close>,
  \<^verbatim>\<open>vec.With(labels).Set(value)\<close> (here \<open>WithSet\<close>), \<^verbatim>\<open>vec.Delete(labels)\<close> and
  \<^verbatim>\<open>prometheus.Unregister(vec)\<close>. A vector is its name, its help text, its label names
  and its series, one value for each label-set that was set and not deleted.
  Two of the calls panic instead of returning an error: \<^verbatim>\<open>MustRegister\<close>, when the
  descriptor is not acceptable or the name is registered already, and \<^verbatim>\<open>With\<close>, when
  the label names are not the ones the vector was created with or a label value is
  not acceptable. What the client accepts as a descriptor and as a label value is the
  parameter \<open>client\<close>. \<^verbatim>\<open>Delete\<close> reports whether there was a series to delete; labels
  that \<^verbatim>\<open>With\<close> would refuse have none.
\<close>

record client =
  validDesc :: "string \<Rightarrow> string set \<Rightarrow> bool"
  validValue :: "string \<Rightarrow> bool"

definition NewGaugeVec :: "string \<Rightarrow> string \<Rightarrow> string set \<Rightarrow> 'v GaugeVec" where
  "NewGaugeVec name hlp names =
     \<lparr>gv_name = name, gv_help = hlp, gv_labelNames = names, gv_children = Map.empty\<rparr>"

definition MustRegister :: "client \<Rightarrow> string set \<Rightarrow> 'v GaugeVec \<Rightarrow> panic + string set" where
  "MustRegister L reg g =
     (if validDesc L (gv_name g) (gv_labelNames g) \<and> gv_name g \<notin> reg
      then Inr (insert (gv_name g) reg)
      else Inl RegisterFailed)"

definition Unregister :: "string set \<Rightarrow> 'v GaugeVec \<Rightarrow> string set" where
  "Unregister reg g = reg - {gv_name g}"

definition WithSet :: "client \<Rightarrow> 'v GaugeVec \<Rightarrow> labels \<Rightarrow> 'v \<Rightarrow> panic + 'v GaugeVec" where
  "WithSet L g labels val =
     (if dom labels = gv_labelNames g \<and> (\<forall>k x. labels k = Some x \<longrightarrow> validValue L x)
      then Inr (g\<lparr>gv_children := (gv_children g)(labels \<mapsto> val)\<rparr>)
      else Inl InconsistentLabels)"

definition Delete :: "'v GaugeVec \<Rightarrow> labels \<Rightarrow> 'v GaugeVec \<times> bool" where
  "Delete g labels =
     (g\<lparr>gv_children := (gv_children g)(labels := None)\<rparr>, labels \<in> dom (gv_children g))"

definition DeepEqual :: "labels \<Rightarrow> labels \<Rightarrow> bool" where
  "DeepEqual a b = (a = b)"

section \<open>The metric lifecycle\<close>

text \<open>
  \<^verbatim>\<open>convertMapKeysToSlice\<close> collects the keys of a map in the order of Go's map iteration,
  which is not fixed; the model returns them as a set.
\<close>

definition convertMapKeysToSlice :: "labels \<Rightarrow> string set" where
  "convertMapKeysToSlice val = dom val"

definition registerMetricsForCheck ::
  "client \<Rightarrow> 'v world \<Rightarrow> 'v \<Rightarrow> labels \<Rightarrow> panic + 'v world" where
  "registerMetricsForCheck L w val labels =
     (let c = (check w)\<lparr>resultCurrent := resultCurrent (check w) @ [labels]\<rparr> in
      if MetricType c = ''Gauge'' then
        (case (case metric c of
                 None \<Rightarrow>
                   (let g = NewGaugeVec (Name c) (Help c) (convertMapKeysToSlice labels) in
                    case MustRegister L (registry w) g of
                      Inl p \<Rightarrow> Inl p
                    | Inr reg \<Rightarrow> Inr (g, reg))
               | Some g \<Rightarrow> Inr (g, registry w)) of
           Inl p \<Rightarrow> Inl p
         | Inr (g, reg) \<Rightarrow>
             (case WithSet L g labels val of
                Inl p \<Rightarrow> Inl p
              | Inr g' \<Rightarrow> Inr (w\<lparr>check := c\<lparr>metric := Some g'\<rparr>, registry := reg\<rparr>)))
      else if MetricType c = ''Counter'' \<or> MetricType c = ''Histogram'' \<or> MetricType c = ''Summary'' then
        Inr (w\<lparr>check := c, warnings := warnings w @ [''Metric type Counter not implemented yet!'']\<rparr>)
      else
        Inr (w\<lparr>check := c\<lparr>metric := None\<rparr>,
               warnings := warnings w @ [''Not able to register unknown metric type '' @ MetricType c]\<rparr>))"

text \<open>
  The outer loop of \<^verbatim>\<open>cleanupUnusedDimensions\<close> over \<^verbatim>\<open>check.resultLast\<close>. The inner loop
  leaves \<^verbatim>\<open>remove\<close> true when no map of \<^verbatim>\<open>check.resultCurrent\<close> is deeply equal to
  \<^verbatim>\<open>labelsLast\<close>. \<^verbatim>\<open>MapToString\<close> is a function of the repository that is not in
  \<^verbatim>\<open>runner.go\<close>; it is the parameter \<open>mts\<close>.
\<close>

fun removeStale :: "(labels \<Rightarrow> string) \<Rightarrow> labels list \<Rightarrow> 'v world \<Rightarrow> panic + 'v world" where
  "removeStale mts [] w = Inr w"
| "removeStale mts (labelsLast # rest) w =
     (if list_ex (DeepEqual labelsLast) (resultCurrent (check w)) then removeStale mts rest w
      else if MetricType (check w) = ''Gauge'' then
        (case metric (check w) of
           None \<Rightarrow> Inl NilInterfaceConversion
         | Some g \<Rightarrow>
             (let (g', deleted) = Delete g labelsLast in
              removeStale mts rest
                (w\<lparr>check := (check w)\<lparr>metric := Some g'\<rparr>,
                   warnings :=
                     (if deleted then warnings w
                      else warnings w @
                        [''Failed to delete stale metric vector with label '' @ mts labelsLast @
                         '' from check '' @ Name (check w)])\<rparr>)))
      else removeStale mts rest w)"

definition cleanupUnusedDimensions :: "(labels \<Rightarrow> string) \<Rightarrow> 'v world \<Rightarrow> panic + 'v world" where
  "cleanupUnusedDimensions mts w =
     (if length (resultCurrent (check w)) > 0 then removeStale mts (resultLast (check w)) w
      else Inr w)"

definition unregisterMetricsForCheck :: "'v world \<Rightarrow> 'v world" where
  "unregisterMetricsForCheck w =
     (case metric (check w) of
        None \<Rightarrow> w
      | Some g \<Rightarrow>
          (let c = check w;
               w' =
                 (if MetricType c = ''Gauge'' then w\<lparr>registry := Unregister (registry w) g\<rparr>
                  else if MetricType c = ''Counter'' \<or> MetricType c = ''Histogram'' \<or>
                          MetricType c = ''Summary''
                  then w\<lparr>warnings := warnings w @ [''Metric type Counter not implemented yet!'']\<rparr>
                  else w\<lparr>warnings := warnings w @
                         [''Not able to unregister unknown metric type '' @ MetricType c]\<rparr>)
           in w'\<lparr>check := c\<lparr>metric := None\<rparr>\<rparr>))"

section \<open>The script executor\<close>

text \<open>
  What \<^verbatim>\<open>cmd.Run()\<close> leaves behind: the two buffers and the error (\<open>None\<close> for nil,
  otherwise the text of \<^verbatim>\<open>err.Error()\<close>). The operating system is the parameter \<open>run\<close>,
  from the shell and the script file to that outcome; \<^verbatim>\<open>runtime.GOOS\<close> is \<open>goos\<close>. An
  \<^verbatim>\<open>error\<close> made by \<^verbatim>\<open>errors.New\<close> is its message.
\<close>

record procResult =
  out :: string
  stderr :: string
  err :: "string option"

definition determineBash :: "string \<Rightarrow> string" where
  "determineBash goos = (if goos = ''windows'' then ''sh'' else ''/bin/sh'')"

definition runBashScript ::
  "string \<Rightarrow> (string \<Rightarrow> string \<Rightarrow> procResult) \<Rightarrow> 'v Check \<Rightarrow> string \<times> string option" where
  "runBashScript goos run c =
     (let r = run (determineBash goos) (File c);
          scriptResult = out r;
          scriptError = stderr r
      in case err r of
           Some e \<Rightarrow>
             if scriptResult \<noteq> [] then ([], Some (''Script failed with error: '' @ scriptResult))
             else if scriptError \<noteq> [] then ([], Some (''Script failed with error: '' @ scriptError))
             else ([], Some (''Script failed with error: '' @ e))
         | None \<Rightarrow> (scriptResult, None))"

section \<open>The scheduling loop\<close>

text \<open>
  The parameters of a run: the platform, the reading of numbers, the metrics client
  and \<^verbatim>\<open>MapToString\<close>.
\<close>

record 'v env =
  GOOS :: string
  floatOf :: "string \<Rightarrow> 'v option"
  prom :: client
  MapToString :: "labels \<Rightarrow> string"

text \<open>The loop of \<^verbatim>\<open>runCheck\<close> over the lines of the script's output.\<close>

fun recordLines :: "'v env \<Rightarrow> string list \<Rightarrow> ('v::zero) world \<Rightarrow> panic + 'v world" where
  "recordLines E [] w = Inr w"
| "recordLines E (line # rest) w =
     (if line \<noteq> [] then
        (case convertResult (floatOf E) line of
           Inl p \<Rightarrow> Inl p
         | Inr (val, labels) \<Rightarrow>
             (case registerMetricsForCheck (prom E) w val labels of
                Inl p \<Rightarrow> Inl p
              | Inr w' \<Rightarrow> recordLines E rest w'))
      else recordLines E rest w)"

text \<open>
  One pass through the \<^verbatim>\<open>default\<close> case of the \<^verbatim>\<open>select\<close> in \<^verbatim>\<open>runCheck\<close>, at the clock
  reading \<open>now\<close> (\<^verbatim>\<open>time.Now().Unix()\<close>, an \<^verbatim>\<open>int64\<close>) and with the operating system
  behaving as \<open>run\<close>. The comparison is signed; the addition to \<^verbatim>\<open>nextrun\<close> wraps as
  \<^verbatim>\<open>int64\<close> addition does.
\<close>

definition tick ::
  "'v env \<Rightarrow> 64 word \<Rightarrow> (string \<Rightarrow> string \<Rightarrow> procResult) \<Rightarrow> ('v::zero) world \<Rightarrow> panic + 'v world" where
  "tick E now run w =
     (if sint now > sint (nextrun (check w)) then
        (let c = check w;
             w1 = w\<lparr>check := c\<lparr>resultLast := resultCurrent c, resultCurrent := []\<rparr>\<rparr>;
             (result, failure) = runBashScript (GOOS E) run (check w1)
         in case (case failure of
                    None \<Rightarrow> recordLines E (Split result CHR 0x0A) w1
                  | Some e \<Rightarrow>
                      Inr (w1\<lparr>warnings := warnings w1 @
                             [''Check '' @ Name c @ '' failed with error: '' @ e]\<rparr>)) of
              Inl p \<Rightarrow> Inl p
            | Inr w2 \<Rightarrow>
                (case cleanupUnusedDimensions (MapToString E) w2 of
                   Inl p \<Rightarrow> Inl p
                 | Inr w3 \<Rightarrow>
                     Inr (w3\<lparr>check := (check w3)
                            \<lparr>nextrun := nextrun (check w3) + word_of_int (Interval (check w3))\<rparr>\<rparr>)))
      else Inr w)"

text \<open>
  The loop of \<^verbatim>\<open>runCheck\<close>, over what its iterations meet: the stop channel closed
  (\<open>Stop\<close>), or nothing to receive, so that the \<^verbatim>\<open>default\<close> case runs (\<open>Poll\<close>). The
  timer of \<^verbatim>\<open>time.After\<close> is made anew by every \<^verbatim>\<open>select\<close> and cannot have fired when the
  \<^verbatim>\<open>select\<close> looks at it, so that case is never taken. When the loop returns, the
  deferred teardown runs. An empty list is a loop that is still running. A panic ends
  the process.
\<close>

datatype event = Stop | Poll "64 word" "string \<Rightarrow> string \<Rightarrow> procResult"

fun runCheck :: "'v env \<Rightarrow> event list \<Rightarrow> ('v::zero) world \<Rightarrow> panic + 'v world" where
  "runCheck E [] w = Inr w"
| "runCheck E (Stop # evs) w = Inr (unregisterMetricsForCheck w)"
| "runCheck E (Poll now run # evs) w =
     (case tick E now run w of
        Inl p \<Rightarrow> Inl p
      | Inr w' \<Rightarrow> runCheck E evs w')"

section \<open>The textual contract of script output\<close>

text \<open>
  The lines the spec calls well-formed, \<^verbatim>\<open>v|k1=v1,k2=v2\<close>: the items \<^verbatim>\<open>k=v\<close> joined by
  commas. A key holds none of \<^verbatim>\<open>|\<close>, \<^verbatim>\<open>,\<close> and \<^verbatim>\<open>=\<close>; a value holds neither \<^verbatim>\<open>|\<close> nor
  \<^verbatim>\<open>,\<close> and may hold \<^verbatim>\<open>=\<close>.
\<close>

fun join :: "string list \<Rightarrow> char \<Rightarrow> string" where
  "join [] sep = []"
| "join [x] sep = x"
| "join (x # y # ys) sep = x @ sep # join (y # ys) sep"

definition labelItem :: "string \<times> string \<Rightarrow> string" where
  "labelItem kv = fst kv @ CHR ''='' # snd kv"

definition labelPairOk :: "string \<times> string \<Rightarrow> bool" where
  "labelPairOk kv =
     (CHR ''|'' \<notin> set (fst kv) \<and> CHR '','' \<notin> set (fst kv) \<and> CHR ''='' \<notin> set (fst kv) \<and>
      CHR ''|'' \<notin> set (snd kv) \<and> CHR '','' \<notin> set (snd kv))"

section \<open>Frames and example inputs\<close>

text \<open>
  Two states of a check agree on its configuration and its schedule: every field but
  the results of the last two runs and the metric handle.
\<close>

definition sameConfig :: "'v Check \<Rightarrow> 'v Check \<Rightarrow> bool" where
  "sameConfig c c' =
     (Name c' = Name c \<and> File c' = File c \<and> Help c' = Help c \<and> MetricType c' = MetricType c \<and>
      Interval c' = Interval c \<and> Active c' = Active c \<and> nextrun c' = nextrun c)"

text \<open>
  The label-sets of the previous run that the current run did not report again.
\<close>

definition stale :: "'v Check \<Rightarrow> labels set" where
  "stale c = {l \<in> set (resultLast c). l \<notin> set (resultCurrent c)}"

text \<open>
  A handle, where the check has one, is the registered vector of this check: the check
  is a gauge, the vector bears the check's name, and the name is in the registry.
\<close>

definition handleInv :: "'v world \<Rightarrow> bool" where
  "handleInv w =
     (case metric (check w) of
        None \<Rightarrow> True
      | Some g \<Rightarrow>
          MetricType (check w) = ''Gauge'' \<and> gv_name g = Name (check w) \<and>
          Name (check w) \<in> registry w)"

text \<open>
  The warning that recording an observation logs for a metric type other than
  \<^verbatim>\<open>Gauge\<close>. The three declared types share one text in the code.
\<close>

definition unsupportedWarning :: "string \<Rightarrow> string" where
  "unsupportedWarning t =
     (if t = ''Counter'' \<or> t = ''Histogram'' \<or> t = ''Summary''
      then ''Metric type Counter not implemented yet!''
      else ''Not able to register unknown metric type '' @ t)"

text \<open>
  Inputs for the examples: a platform and a client that accepts every name and value,
  a gauge check that has not run yet, the gauge vector it creates on the line
  \<^verbatim>\<open>1|disk=sda\<close>, a script that prints nothing and exits with code 0, one that prints
  a text and exits with code 0, and one that writes to standard error and exits with
  code 1.
\<close>

definition exampleEnv :: "real env" where
  "exampleEnv =
     \<lparr>GOOS = ''linux'',
      floatOf = [''1'' \<mapsto> 1, ''2'' \<mapsto> 2, ''3.5'' \<mapsto> 7 / 2, ''42'' \<mapsto> 42],
      prom = \<lparr>validDesc = (\<lambda>name names. True), validValue = (\<lambda>x. True)\<rparr>,
      MapToString = (\<lambda>l. [])\<rparr>"

definition exampleCheck :: "real Check" where
  "exampleCheck =
     \<lparr>Name = ''disk_usage'', File = ''/checks/disk.sh'', Help = ''Disk usage'',
      MetricType = ''Gauge'', Interval = 60, Active = True, nextrun = 0,
      resultCurrent = [], resultLast = [], metric = None\<rparr>"

definition exampleGauge :: "real GaugeVec" where
  "exampleGauge =
     \<lparr>gv_name = ''disk_usage'', gv_help = ''Disk usage'', gv_labelNames = {''disk''},
      gv_children = [[''disk'' \<mapsto> ''sda''] \<mapsto> 1]\<rparr>"

definition silent :: "string \<Rightarrow> string \<Rightarrow> procResult" where
  "silent sh file = \<lparr>out = [], stderr = [], err = None\<rparr>"

definition prints :: "string \<Rightarrow> string \<Rightarrow> string \<Rightarrow> procResult" where
  "prints text sh file = \<lparr>out = text, stderr = [], err = None\<rparr>"

definition fails :: "string \<Rightarrow> string \<Rightarrow> string \<Rightarrow> procResult" where
  "fails text sh file = \<lparr>out = [], stderr = text, err = Some ''exit status 1''\<rparr>"

section \<open>Cutting strings\<close>

lemma takeWhile_sep: "sep \<notin> set a \<Longrightarrow> takeWhile (\<lambda>c. c \<noteq> sep) (a @ sep # b) = a"
  by (induction a) auto

lemma dropWhile_sep: "sep \<notin> set a \<Longrightarrow> dropWhile (\<lambda>c. c \<noteq> sep) (a @ sep # b) = sep # b"
  by (induction a) auto

lemma count_list_absent: "sep \<notin> set a \<Longrightarrow> count_list a sep = 0"
  by (induction a) auto

lemma count_list_cut: "sep \<notin> set a \<Longrightarrow> count_list (a @ sep # b) sep = Suc (count_list b sep)"
  by (induction a) auto

lemma genSplit_cut:
  "sep \<notin> set a \<Longrightarrow> genSplit (a @ sep # b) sep (Suc (Suc n)) = a # genSplit b sep (Suc n)"
  by (simp add: takeWhile_sep dropWhile_sep)

text \<open>A text is cut at its leftmost separator, and a text without separator is one piece.\<close>

lemma Split_cut: "sep \<notin> set a \<Longrightarrow> Split (a @ sep # b) sep = a # Split b sep"
  by (simp add: Split_def count_list_cut genSplit_cut del: genSplit.simps)

lemma Split_whole: "sep \<notin> set a \<Longrightarrow> Split a sep = [a]"
  by (simp add: Split_def count_list_absent)

lemma SplitN_2_cut: "sep \<notin> set k \<Longrightarrow> SplitN (k @ sep # v) sep 2 = [k, v]"
  by (simp add: SplitN_def numeral_2_eq_2 takeWhile_sep dropWhile_sep)

lemma SplitN_2_whole: "sep \<notin> set k \<Longrightarrow> SplitN k sep 2 = [k]"
  by (simp add: SplitN_def numeral_2_eq_2)

text \<open>\<^verbatim>\<open>Split\<close> returns one piece more than the text has separators, so never none.\<close>

lemma Split_length: "length (Split s sep) = count_list s sep + 1"
proof (induction "count_list s sep" arbitrary: s)
  case 0
  then have "sep \<notin> set s" by (metis count_list_0_iff)
  then show ?case using 0 by (simp add: Split_whole)
next
  case (Suc n)
  then have "sep \<in> set s" by (metis count_list_0_iff nat.simps(3))
  then obtain a b where s: "s = a @ sep # b" "sep \<notin> set a"
    by (auto dest!: split_list_first)
  with Suc show ?case by (simp add: Split_cut count_list_cut)
qed

lemma Split_join:
  "items \<noteq> [] \<Longrightarrow> \<forall>x \<in> set items. sep \<notin> set x \<Longrightarrow> Split (join items sep) sep = items"
proof (induction items sep rule: join.induct)
  case (1 sep)
  then show ?case by simp
next
  case (2 x sep)
  then show ?case by (simp add: Split_whole)
next
  case (3 x y ys sep)
  then show ?case by (simp add: Split_cut)
qed

lemma join_avoids:
  "\<forall>x \<in> set items. c \<notin> set x \<Longrightarrow> c \<noteq> sep \<Longrightarrow> c \<notin> set (join items sep)"
  by (induction items sep rule: join.induct) auto

section \<open>The parser on lines with and without a bar\<close>

text \<open>
  Items of the form \<^verbatim>\<open>k=v\<close> are all stored, a later item overwriting an earlier one
  with the same key.
\<close>

lemma addLabels_items:
  "\<forall>kv \<in> set kvs. CHR ''='' \<notin> set (fst kv) \<Longrightarrow>
   addLabels (map labelItem kvs) m = Inr (m ++ map_of (rev kvs))"
proof (induction kvs arbitrary: m)
  case Nil
  then show ?case by simp
next
  case (Cons kv kvs)
  obtain k v where kv: "kv = (k, v)" by (cases kv)
  with Cons.prems have k: "CHR ''='' \<notin> set k" by simp
  have "addLabels (map labelItem (kv # kvs)) m = addLabels (map labelItem kvs) (m(k \<mapsto> v))"
    using k by (simp add: kv labelItem_def SplitN_2_cut)
  also have "\<dots> = Inr (m(k \<mapsto> v) ++ map_of (rev kvs))"
    using Cons by simp
  also have "m(k \<mapsto> v) ++ map_of (rev kvs) = m ++ map_of (rev (kv # kvs))"
    by (simp add: kv map_add_upd_left fun_eq_iff map_add_def split: option.splits)
  finally show ?case .
qed

lemma convertResult_bar:
  assumes "CHR ''|'' \<notin> set a" and "CHR ''|'' \<notin> set b"
  shows "convertResult pf (a @ CHR ''|'' # b) =
           (case addLabels (Split b CHR '','') Map.empty of
              Inl p \<Rightarrow> Inl p
            | Inr labels \<Rightarrow> Inr (fst (ParseFloat pf a), labels))"
  using assms by (simp add: convertResult_def Contains_def Split_cut Split_whole)

lemma convertResult_plain:
  "CHR ''|'' \<notin> set a \<Longrightarrow> convertResult pf a = Inr (fst (ParseFloat pf a), Map.empty)"
  by (simp add: convertResult_def Contains_def)

text \<open>
  Where the parser returns and where it panics: it returns exactly on the lines without
  a bar and on the lines whose label part (between the first bar and the second, or
  the end) has an \<^verbatim>\<open>=\<close> in every item; its only panic is the index out of range.
\<close>

lemma addLabels_total_iff:
  "(\<exists>labels. addLabels items m = Inr labels) \<longleftrightarrow> (\<forall>item \<in> set items. CHR ''='' \<in> set item)"
proof (induction items arbitrary: m)
  case Nil
  then show ?case by simp
next
  case (Cons item items)
  show ?case
  proof (cases "CHR ''='' \<in> set item")
    case True
    then obtain k v where "item = k @ CHR ''='' # v" "CHR ''='' \<notin> set k"
      by (auto dest!: split_list_first)
    then have "addLabels (item # items) m = addLabels items (m(k \<mapsto> v))"
      by (simp add: SplitN_2_cut)
    with Cons.IH [of "m(k \<mapsto> v)"] True show ?thesis
      by (simp del: addLabels.simps fun_upd_apply)
  next
    case False
    then show ?thesis by (simp add: SplitN_2_whole)
  qed
qed

lemma addLabels_panic: "addLabels items m = Inl p \<Longrightarrow> p = IndexOutOfRange"
proof (induction items arbitrary: m)
  case Nil
  then show ?case by simp
next
  case (Cons item items)
  then show ?case by (auto split: list.splits)
qed

lemma convertResult_total_iff:
  "(\<exists>r. convertResult pf line = Inr r) \<longleftrightarrow>
     (CHR ''|'' \<notin> set line \<or>
      (\<forall>item \<in> set (Split (Split line CHR ''|'' ! 1) CHR '',''). CHR ''='' \<in> set item))"
proof (cases "CHR ''|'' \<in> set line")
  case False
  then show ?thesis by (simp add: convertResult_plain)
next
  case True
  then obtain a r where l: "line = a @ CHR ''|'' # r" "CHR ''|'' \<notin> set a"
    by (auto dest!: split_list_first)
  obtain b rest where s: "Split r CHR ''|'' = b # rest"
    using Split_length [of r "CHR ''|''"] by (cases "Split r CHR ''|''") auto
  have "convertResult pf line =
          (case addLabels (Split b CHR '','') Map.empty of
             Inl p \<Rightarrow> Inl p
           | Inr labels \<Rightarrow> Inr (fst (ParseFloat pf a), labels))"
    using l s by (simp add: convertResult_def Contains_def Split_cut)
  moreover have "Split line CHR ''|'' ! 1 = b"
    using l s by (simp add: Split_cut)
  ultimately show ?thesis
    using True addLabels_total_iff [of "Split b CHR '',''" Map.empty]
    by (auto split: sum.splits)
qed

lemma convertResult_panic: "convertResult pf line = Inl p \<Longrightarrow> p = IndexOutOfRange"
  by (auto simp add: convertResult_def split: if_splits list.splits sum.splits dest: addLabels_panic)

text \<open>
  Claim C2. A line \<^verbatim>\<open>v\<close> that holds no bar and reads as the number \<open>x\<close> is parsed to \<open>x\<close>
  and the empty label mapping; the line \<^verbatim>\<open>v|k1=v1,...,kn=vn\<close> with at least one item,
  its keys and values as the textual contract has them, is parsed to \<open>x\<close> and the
  mapping of every \<^verbatim>\<open>ki\<close> to \<^verbatim>\<open>vi\<close> (the last item of a key counts).
\<close>

theorem convertResult_wellformed:
  assumes "CHR ''|'' \<notin> set v" and "pf v = Some x"
  shows "convertResult pf v = Inr (x, Map.empty) \<and>
         (kvs \<noteq> [] \<and> (\<forall>kv \<in> set kvs. labelPairOk kv) \<longrightarrow>
            convertResult pf (v @ CHR ''|'' # join (map labelItem kvs) CHR '','') =
              Inr (x, map_of (rev kvs)))"
proof (intro conjI impI)
  show "convertResult pf v = Inr (x, Map.empty)"
    using assms by (simp add: convertResult_plain ParseFloat_def)
next
  assume kvs: "kvs \<noteq> [] \<and> (\<forall>kv \<in> set kvs. labelPairOk kv)"
  let ?items = "map labelItem kvs"
  have nobar: "\<forall>i \<in> set ?items. CHR ''|'' \<notin> set i"
    using kvs by (auto simp: labelItem_def labelPairOk_def)
  have nocomma: "\<forall>i \<in> set ?items. CHR '','' \<notin> set i"
    using kvs by (auto simp: labelItem_def labelPairOk_def)
  have noeq: "\<forall>kv \<in> set kvs. CHR ''='' \<notin> set (fst kv)"
    using kvs by (simp add: labelPairOk_def)
  have "CHR ''|'' \<notin> set (join ?items CHR '','')"
    using nobar by (rule join_avoids) simp
  then have "convertResult pf (v @ CHR ''|'' # join ?items CHR '','') =
      (case addLabels (Split (join ?items CHR '','') CHR '','') Map.empty of
         Inl p \<Rightarrow> Inl p
       | Inr labels \<Rightarrow> Inr (fst (ParseFloat pf v), labels))"
    using assms(1) by (simp add: convertResult_bar)
  also have "Split (join ?items CHR '','') CHR '','' = ?items"
    using kvs nocomma by (simp add: Split_join)
  also have "addLabels ?items Map.empty = Inr (map_of (rev kvs))"
    using noeq by (simp add: addLabels_items)
  finally show "convertResult pf (v @ CHR ''|'' # join ?items CHR '','') = Inr (x, map_of (rev kvs))"
    using assms(2) by (simp add: ParseFloat_def)
qed

theorem convertResult_wellformed_witness:
  "convertResult [''42'' \<mapsto> 42::real] ''42'' = Inr (42, Map.empty) \<and>
   convertResult [''3.5'' \<mapsto> 7 / 2 :: real] ''3.5|disk=sda,mount=/'' =
     Inr (7 / 2, [''disk'' \<mapsto> ''sda'', ''mount'' \<mapsto> ''/''])"
  using convertResult_wellformed [of "''42''" "[''42'' \<mapsto> 42::real]" 42 "[]"]
    convertResult_wellformed [of "''3.5''" "[''3.5'' \<mapsto> 7 / 2 :: real]" "7 / 2"
      "[(''disk'', ''sda''), (''mount'', ''/'')]"]
  by (simp add: labelItem_def labelPairOk_def)

text \<open>
  Claim C3. The parser is not total on non-empty lines: an item right of the bar that
  holds no \<^verbatim>\<open>=\<close> makes \<^verbatim>\<open>splitLabel[1]\<close> an index out of range, and the parser panics.
  This is so for the line \<^verbatim>\<open>1|a\<close>, for the line \<^verbatim>\<open>1|\<close> (its one item is empty) and for
  \<^verbatim>\<open>1|a=b,c\<close>, whatever the reading of numbers.
\<close>

theorem convertResult_panics:
  "convertResult pf ''1|a'' = Inl IndexOutOfRange \<and>
   convertResult pf ''1|'' = Inl IndexOutOfRange \<and>
   convertResult pf ''1|a=b,c'' = Inl IndexOutOfRange"
  by (simp add: convertResult_def Contains_def Split_def SplitN_def numeral_2_eq_2)

text \<open>
  Claim C5. On the line \<^verbatim>\<open>abc|host\<close>, whose numeric part \<^verbatim>\<open>abc\<close> is no number (the
  number parser reports 0 and an error), the parser returns neither the value 0 nor
  labels: it panics on the item \<^verbatim>\<open>host\<close>.
\<close>

theorem convertResult_unparsable_panics:
  "ParseFloat Map.empty ''abc'' = (0::real, True) \<and>
   convertResult (Map.empty :: string \<Rightarrow> real option) ''abc|host'' = Inl IndexOutOfRange"
  by (simp add: ParseFloat_def convertResult_def Contains_def Split_def SplitN_def numeral_2_eq_2)

text \<open>
  Where the parser does not panic, a numeric part that is no number gives the value 0
  and the labels of the line.
\<close>

lemma convertResult_unparsable:
  assumes "CHR ''|'' \<notin> set a" and "pf a = None"
  shows "convertResult pf a = Inr (0, Map.empty)"
    and "CHR ''|'' \<notin> set b \<Longrightarrow> addLabels (Split b CHR '','') Map.empty = Inr labels \<Longrightarrow>
         convertResult pf (a @ CHR ''|'' # b) = Inr (0, labels)"
  using assms by (simp_all add: convertResult_plain convertResult_bar ParseFloat_def)

text \<open>
  Claim C10. Of a line with two bars or more, \<^verbatim>\<open>a|b|c\<close> with no bar in \<^verbatim>\<open>a\<close> and \<^verbatim>\<open>b\<close>,
  the parser reads the number from \<^verbatim>\<open>a\<close> and the label items from \<^verbatim>\<open>b\<close>; its result is
  that of the line \<^verbatim>\<open>a|b\<close>, whatever \<^verbatim>\<open>c\<close> is.
\<close>

theorem convertResult_second_bar:
  assumes "CHR ''|'' \<notin> set a" and "CHR ''|'' \<notin> set b"
  shows "convertResult pf (a @ CHR ''|'' # b @ CHR ''|'' # c) =
           (case addLabels (Split b CHR '','') Map.empty of
              Inl p \<Rightarrow> Inl p
            | Inr labels \<Rightarrow> Inr (fst (ParseFloat pf a), labels)) \<and>
         convertResult pf (a @ CHR ''|'' # b @ CHR ''|'' # c) = convertResult pf (a @ CHR ''|'' # b)"
proof -
  have "Split (a @ CHR ''|'' # b @ CHR ''|'' # c) CHR ''|'' = a # b # Split c CHR ''|''"
    using assms by (simp add: Split_cut)
  then have "convertResult pf (a @ CHR ''|'' # b @ CHR ''|'' # c) =
           (case addLabels (Split b CHR '','') Map.empty of
              Inl p \<Rightarrow> Inl p
            | Inr labels \<Rightarrow> Inr (fst (ParseFloat pf a), labels))"
    by (simp add: convertResult_def Contains_def)
  then show ?thesis using assms by (simp add: convertResult_bar)
qed

theorem convertResult_second_bar_witness:
  "convertResult [''1'' \<mapsto> 1::real] ''1|a=b|c=d,junk'' = Inr (1, [''a'' \<mapsto> ''b'']) \<and>
   convertResult [''1'' \<mapsto> 1::real] ''1|a=b|c=d,junk'' = convertResult [''1'' \<mapsto> 1::real] ''1|a=b''"
  using convertResult_second_bar [of "''1''" "''a=b''" "[''1'' \<mapsto> 1::real]" "''c=d,junk''"]
  by (auto simp add: Split_def SplitN_def ParseFloat_def numeral_2_eq_2)

section \<open>The script executor's outcomes\<close>

text \<open>
  Claim C4. When the run of the script leaves \<open>r\<close> behind: with no error the result is
  the captured standard output and no error; with an error the result string is
  empty and exactly one error is returned, which carries the standard output if that
  is not empty, else the standard error if that is not empty, else the text of the
  error of the run.
\<close>

theorem runBashScript_outcome:
  assumes "run (determineBash goos) (File c) = r"
  shows "(err r = None \<longrightarrow> runBashScript goos run c = (out r, None)) \<and>
   (\<forall>e. err r = Some e \<longrightarrow>
      runBashScript goos run c =
        ([], Some (''Script failed with error: '' @
                   (if out r \<noteq> [] then out r else if stderr r \<noteq> [] then stderr r else e))))"
  using assms by (auto simp add: runBashScript_def)

theorem runBashScript_outcome_witness:
  "runBashScript ''linux'' (\<lambda>sh f. \<lparr>out = ''3.5|disk=sda'', stderr = ''note'', err = None\<rparr>) exampleCheck =
     (''3.5|disk=sda'', None) \<and>
   runBashScript ''linux'' (\<lambda>sh f. \<lparr>out = ''disk full'', stderr = ''timeout'', err = Some ''exit status 1''\<rparr>) exampleCheck =
     ([], Some ''Script failed with error: disk full'') \<and>
   runBashScript ''linux'' (\<lambda>sh f. \<lparr>out = [], stderr = ''timeout'', err = Some ''exit status 1''\<rparr>) exampleCheck =
     ([], Some ''Script failed with error: timeout'') \<and>
   runBashScript ''linux'' (\<lambda>sh f. \<lparr>out = [], stderr = [], err = Some ''exit status 1''\<rparr>) exampleCheck =
     ([], Some ''Script failed with error: exit status 1'')"
  using
    runBashScript_outcome [of "\<lambda>sh f. \<lparr>out = ''3.5|disk=sda'', stderr = ''note'', err = None\<rparr>" "''linux''" exampleCheck
      "\<lparr>out = ''3.5|disk=sda'', stderr = ''note'', err = None\<rparr>"]
    runBashScript_outcome [of "\<lambda>sh f. \<lparr>out = ''disk full'', stderr = ''timeout'', err = Some ''exit status 1''\<rparr>" "''linux''" exampleCheck
      "\<lparr>out = ''disk full'', stderr = ''timeout'', err = Some ''exit status 1''\<rparr>"]
    runBashScript_outcome [of "\<lambda>sh f. \<lparr>out = [], stderr = ''timeout'', err = Some ''exit status 1''\<rparr>" "''linux''" exampleCheck
      "\<lparr>out = [], stderr = ''timeout'', err = Some ''exit status 1''\<rparr>"]
    runBashScript_outcome [of "\<lambda>sh f. \<lparr>out = [], stderr = [], err = Some ''exit status 1''\<rparr>" "''linux''" exampleCheck
      "\<lparr>out = [], stderr = [], err = Some ''exit status 1''\<rparr>"]
  by simp

section \<open>Teardown\<close>

text \<open>
  Claim C8. After teardown the handle of the check is nil, and a second teardown
  changes nothing; teardown of a check whose handle is nil changes nothing; teardown of
  a gauge check with handle \<open>g\<close> takes the name of \<open>g\<close> out of the registry and nothing
  else, so that the name of a check whose handle was its registered vector is no longer
  registered.
\<close>

theorem unregisterMetricsForCheck_teardown:
  "metric (check (unregisterMetricsForCheck w)) = None \<and>
   unregisterMetricsForCheck (unregisterMetricsForCheck w) = unregisterMetricsForCheck w \<and>
   (metric (check w) = None \<longrightarrow> unregisterMetricsForCheck w = w) \<and>
   (\<forall>g. metric (check w) = Some g \<and> MetricType (check w) = ''Gauge'' \<longrightarrow>
      gv_name g \<notin> registry (unregisterMetricsForCheck w) \<and>
      registry (unregisterMetricsForCheck w) = registry w - {gv_name g} \<and>
      warnings (unregisterMetricsForCheck w) = warnings w) \<and>
   (\<forall>g. metric (check w) = Some g \<and> handleInv w \<longrightarrow>
      Name (check w) \<notin> registry (unregisterMetricsForCheck w))"
proof -
  have n: "metric (check (unregisterMetricsForCheck w)) = None"
    by (simp add: unregisterMetricsForCheck_def Let_def split: option.splits)
  have "\<And>u::'a world. metric (check u) = None \<Longrightarrow> unregisterMetricsForCheck u = u"
    by (simp add: unregisterMetricsForCheck_def)
  with n show ?thesis
    by (auto simp add: unregisterMetricsForCheck_def Unregister_def handleInv_def Let_def)
qed

theorem unregisterMetricsForCheck_teardown_witness:
  "unregisterMetricsForCheck
     \<lparr>check = exampleCheck\<lparr>metric := Some exampleGauge\<rparr>,
      registry = {''disk_usage'', ''uptime''}, warnings = []\<rparr> =
     \<lparr>check = exampleCheck, registry = {''uptime''}, warnings = []\<rparr> \<and>
   unregisterMetricsForCheck \<lparr>check = exampleCheck, registry = {''uptime''}, warnings = []\<rparr> =
     \<lparr>check = exampleCheck, registry = {''uptime''}, warnings = []\<rparr> \<and>
   ''disk_usage'' \<notin> registry (unregisterMetricsForCheck
     \<lparr>check = exampleCheck\<lparr>metric := Some exampleGauge\<rparr>,
      registry = {''disk_usage'', ''uptime''}, warnings = []\<rparr>)"
proof -
  let ?w = "\<lparr>check = exampleCheck\<lparr>metric := Some exampleGauge\<rparr>,
      registry = {''disk_usage'', ''uptime''}, warnings = []\<rparr>"
  have e: "unregisterMetricsForCheck ?w = \<lparr>check = exampleCheck, registry = {''uptime''}, warnings = []\<rparr>"
    by (auto simp add: unregisterMetricsForCheck_def Unregister_def exampleCheck_def exampleGauge_def)
  show ?thesis
    using unregisterMetricsForCheck_teardown [of ?w] e
    by (simp add: exampleCheck_def exampleGauge_def)
qed

section \<open>What the operations leave alone\<close>

lemma sameConfig_refl: "sameConfig c c"
  by (simp add: sameConfig_def)

lemma sameConfig_trans: "sameConfig a b \<Longrightarrow> sameConfig b c \<Longrightarrow> sameConfig a c"
  by (simp add: sameConfig_def)

lemma register_sameConfig:
  "registerMetricsForCheck L w v l = Inr w' \<Longrightarrow> sameConfig (check w) (check w')"
  by (auto simp add: registerMetricsForCheck_def sameConfig_def Let_def
      split: if_splits option.splits sum.splits)

lemma removeStale_sameConfig:
  "removeStale mts ls w = Inr w' \<Longrightarrow> sameConfig (check w) (check w')"
proof (induction ls arbitrary: w)
  case Nil
  then show ?case by (simp add: sameConfig_refl)
next
  case (Cons l ls)
  show ?case
  proof (cases "list_ex (DeepEqual l) (resultCurrent (check w)) \<or> MetricType (check w) \<noteq> ''Gauge''")
    case True
    with Cons.prems have "removeStale mts ls w = Inr w'"
      by (auto split: if_splits)
    then show ?thesis by (rule Cons.IH)
  next
    case False
    with Cons.prems obtain g where g: "metric (check w) = Some g"
      by (auto split: option.splits)
    let ?w = "w\<lparr>check := (check w)\<lparr>metric := Some (fst (Delete g l))\<rparr>,
                warnings := (if snd (Delete g l) then warnings w
                  else warnings w @ [''Failed to delete stale metric vector with label '' @ mts l @
                         '' from check '' @ Name (check w)])\<rparr>"
    from False g Cons.prems have "removeStale mts ls ?w = Inr w'"
      by (simp add: case_prod_unfold Let_def del: append.simps)
    then have "sameConfig (check ?w) (check w')" by (rule Cons.IH)
    then show ?thesis by (simp add: sameConfig_def)
  qed
qed

lemma cleanup_sameConfig:
  "cleanupUnusedDimensions mts w = Inr w' \<Longrightarrow> sameConfig (check w) (check w')"
  by (auto simp add: cleanupUnusedDimensions_def sameConfig_refl removeStale_sameConfig split: if_splits)

lemma recordLines_sameConfig:
  "recordLines E ls w = Inr w' \<Longrightarrow> sameConfig (check w) (check w')"
proof (induction ls arbitrary: w)
  case Nil
  then show ?case by (simp add: sameConfig_refl)
next
  case (Cons l ls)
  then show ?case
    by (auto split: if_splits sum.splits prod.splits
        dest!: register_sameConfig intro: sameConfig_trans)
qed

lemma unregister_sameConfig: "sameConfig (check w) (check (unregisterMetricsForCheck w))"
  by (simp add: unregisterMetricsForCheck_def sameConfig_def Let_def split: option.splits)

section \<open>The schedule\<close>

lemma tick_config:
  assumes "tick E now run w = Inr w'"
  shows "sameConfig
           ((check w)\<lparr>nextrun :=
              (if sint now > sint (nextrun (check w))
               then nextrun (check w) + word_of_int (Interval (check w))
               else nextrun (check w))\<rparr>)
           (check w')"
proof (cases "sint now > sint (nextrun (check w))")
  case False
  with assms show ?thesis by (simp add: tick_def sameConfig_def)
next
  case True
  let ?c = "check w"
  let ?w1 = "w\<lparr>check := ?c\<lparr>resultLast := resultCurrent ?c, resultCurrent := []\<rparr>\<rparr>"
  obtain result failure where rb: "runBashScript (GOOS E) run (check ?w1) = (result, failure)"
    by (cases "runBashScript (GOOS E) run (check ?w1)")
  from assms True rb obtain w2 w3 where
    w2: "(case failure of None \<Rightarrow> recordLines E (Split result CHR 0x0A) ?w1
          | Some e \<Rightarrow> Inr (?w1\<lparr>warnings := warnings ?w1 @
               [''Check '' @ Name ?c @ '' failed with error: '' @ e]\<rparr>)) = Inr w2"
    and w3: "cleanupUnusedDimensions (MapToString E) w2 = Inr w3"
    and w': "w' = w3\<lparr>check := (check w3)\<lparr>nextrun := nextrun (check w3) + word_of_int (Interval (check w3))\<rparr>\<rparr>"
    by (auto simp add: tick_def Let_def split: sum.splits)
  have "sameConfig (check ?w1) (check w2)"
    using w2 by (cases failure) (auto simp: sameConfig_def dest: recordLines_sameConfig)
  moreover have "sameConfig (check w2) (check w3)"
    using w3 by (rule cleanup_sameConfig)
  ultimately have "sameConfig (check ?w1) (check w3)" by (rule sameConfig_trans)
  then show ?thesis using True w' by (simp add: sameConfig_def)
qed

lemma sint_add_no_overflow:
  fixes a :: "64 word"
  assumes "0 \<le> i" and "sint a + i < 2 ^ 63"
  shows "sint (a + word_of_int i) = sint a + i"
proof -
  have lo: "- (2 ^ 63) \<le> sint a" using sint_ge [of a] by simp
  have "a + word_of_int i = word_of_int (sint a + i)"
    by simp
  then have "sint (a + word_of_int i) = signed_take_bit 63 (sint a + i)"
    by (simp only: sint_sbintrunc') simp
  also have "\<dots> = sint a + i"
    using assms lo by (intro signed_take_bit_int_eq_self) auto
  finally show ?thesis .
qed

lemma tick_not_due: "\<not> sint (nextrun (check w)) < sint now \<Longrightarrow> tick E now run w = Inr w"
  by (simp add: tick_def)

lemma runCheck_nextrun:
  assumes "runCheck E evs w = Inr w'"
    and "0 \<le> Interval (check w)"
    and "sint (nextrun (check w)) + int (length evs) * Interval (check w) < 2 ^ 63"
  shows "sint (nextrun (check w)) \<le> sint (nextrun (check w')) \<and>
         sint (nextrun (check w')) \<le> sint (nextrun (check w)) + int (length evs) * Interval (check w) \<and>
         Interval (check w') = Interval (check w)"
  using assms
proof (induction E evs w rule: runCheck.induct)
  case (1 E w)
  then show ?case by simp
next
  case (2 E evs w)
  have "0 \<le> int (length (Stop # evs)) * Interval (check w)"
    using "2.prems" by simp
  then show ?case
    using "2.prems" unregister_sameConfig [of w] by (auto simp add: sameConfig_def)
next
  case (3 E now run evs w)
  from "3.prems"(1) obtain w1 where t: "tick E now run w = Inr w1" and r: "runCheck E evs w1 = Inr w'"
    by (auto split: sum.splits)
  let ?i = "Interval (check w)"
  have m: "0 \<le> int (length evs) * ?i" using "3.prems"(2) by simp
  have i1: "Interval (check w1) = ?i"
    using tick_config [OF t] by (simp add: sameConfig_def)
  have s1: "sint (nextrun (check w)) \<le> sint (nextrun (check w1)) \<and>
            sint (nextrun (check w1)) \<le> sint (nextrun (check w)) + ?i"
  proof (cases "sint (nextrun (check w)) < sint now")
    case True
    then have "nextrun (check w1) = nextrun (check w) + word_of_int ?i"
      using tick_config [OF t] by (simp add: sameConfig_def)
    moreover have "sint (nextrun (check w)) + ?i < 2 ^ 63"
      using "3.prems"(3) m by (simp add: algebra_simps)
    ultimately show ?thesis using "3.prems"(2) by (simp add: sint_add_no_overflow)
  next
    case False
    then have "w1 = w" using t by (simp add: tick_not_due)
    then show ?thesis using "3.prems"(2) by simp
  qed
  have b: "sint (nextrun (check w1)) + int (length evs) * Interval (check w1) < 2 ^ 63"
    using s1 "3.prems"(3) by (simp add: i1 algebra_simps)
  from "3.IH" [OF t r] "3.prems"(2) b i1
  have "sint (nextrun (check w1)) \<le> sint (nextrun (check w')) \<and>
        sint (nextrun (check w')) \<le> sint (nextrun (check w1)) + int (length evs) * ?i \<and>
        Interval (check w') = ?i" by simp
  with s1 show ?case by (simp add: algebra_simps)
qed

text \<open>
  Claim C9, as the code has it. A pass of the loop that finds the check due and
  completes sets \<^verbatim>\<open>nextrun\<close> to \<^verbatim>\<open>nextrun + int64(Interval)\<close> in \<^verbatim>\<open>int64\<close> arithmetic and
  leaves \<^verbatim>\<open>Interval\<close> alone; a pass that finds it not due changes nothing. When the
  interval is positive and the sum stays below \<open>2 ^ 63\<close>, the new value read as signed is
  the old one plus the interval, so strictly greater. Recording an observation,
  reconciliation and teardown do not touch \<^verbatim>\<open>nextrun\<close>. Over any number of iterations
  of the loop, with an interval that is not negative and no overflow within them,
  \<^verbatim>\<open>nextrun\<close> read as signed never decreases.
\<close>

theorem tick_advances_nextrun:
  assumes "tick E now run w = Inr w'"
  shows "(sint (nextrun (check w)) < sint now \<longrightarrow>
            nextrun (check w') = nextrun (check w) + word_of_int (Interval (check w)) \<and>
            Interval (check w') = Interval (check w)) \<and>
         (\<not> sint (nextrun (check w)) < sint now \<longrightarrow> w' = w) \<and>
         (sint (nextrun (check w)) < sint now \<and> 0 < Interval (check w) \<and>
          sint (nextrun (check w)) + Interval (check w) < 2 ^ 63 \<longrightarrow>
            sint (nextrun (check w')) = sint (nextrun (check w)) + Interval (check w) \<and>
            sint (nextrun (check w)) < sint (nextrun (check w'))) \<and>
         (\<forall>L u v l u'. registerMetricsForCheck L u v l = Inr u' \<longrightarrow>
            nextrun (check u') = nextrun (check (u :: 'a world))) \<and>
         (\<forall>mts u u'. cleanupUnusedDimensions mts u = Inr u' \<longrightarrow>
            nextrun (check u') = nextrun (check (u :: 'a world))) \<and>
         (\<forall>u. nextrun (check (unregisterMetricsForCheck u)) = nextrun (check (u :: 'a world))) \<and>
         (\<forall>evs w1. runCheck E evs w = Inr w1 \<and> 0 \<le> Interval (check w) \<and>
            sint (nextrun (check w)) + int (length evs) * Interval (check w) < 2 ^ 63 \<longrightarrow>
            sint (nextrun (check w)) \<le> sint (nextrun (check w1)))"
proof (intro conjI impI allI)
  assume due: "sint (nextrun (check w)) < sint now"
  then show "nextrun (check w') = nextrun (check w) + word_of_int (Interval (check w))"
    using tick_config [OF assms] by (simp add: sameConfig_def)
next
  assume "\<not> sint (nextrun (check w)) < sint now"
  then show "w' = w" using assms by (simp add: tick_not_due)
next
  assume h: "sint (nextrun (check w)) < sint now \<and> 0 < Interval (check w) \<and>
          sint (nextrun (check w)) + Interval (check w) < 2 ^ 63"
  then have n: "nextrun (check w') = nextrun (check w) + word_of_int (Interval (check w))"
    using tick_config [OF assms] by (simp add: sameConfig_def)
  show "sint (nextrun (check w')) = sint (nextrun (check w)) + Interval (check w)"
    using h by (simp add: n sint_add_no_overflow)
  then show "sint (nextrun (check w)) < sint (nextrun (check w'))"
    using h by simp
next
  fix L and u u' :: "'a world" and v l
  assume "registerMetricsForCheck L u v l = Inr u'"
  then show "nextrun (check u') = nextrun (check u)"
    by (auto dest: register_sameConfig simp: sameConfig_def)
next
  fix mts and u u' :: "'a world"
  assume "cleanupUnusedDimensions mts u = Inr u'"
  then show "nextrun (check u') = nextrun (check u)"
    by (auto dest: cleanup_sameConfig simp: sameConfig_def)
next
  fix u :: "'a world"
  show "nextrun (check (unregisterMetricsForCheck u)) = nextrun (check u)"
    using unregister_sameConfig [of u] by (simp add: sameConfig_def)
next
  assume due: "sint (nextrun (check w)) < sint now"
  show "Interval (check w') = Interval (check w)"
    using tick_config [OF assms] by (simp add: sameConfig_def)
next
  fix evs w1
  assume "runCheck E evs w = Inr w1 \<and> 0 \<le> Interval (check w) \<and>
            sint (nextrun (check w)) + int (length evs) * Interval (check w) < 2 ^ 63"
  then show "sint (nextrun (check w)) \<le> sint (nextrun (check w1))"
    using runCheck_nextrun [of E evs w w1] by simp
qed

text \<open>
  Without the bound the claim fails: with \<^verbatim>\<open>nextrun = 1\<close> and the positive interval
  \<open>2 ^ 63 - 1\<close>, the pass at clock reading 2 completes and leaves \<^verbatim>\<open>nextrun\<close> at
  \<open>- 2 ^ 63\<close>, which is less than before.
\<close>

theorem tick_overflow_counterexample:
  "0 < Interval (exampleCheck\<lparr>nextrun := 1, Interval := 2 ^ 63 - 1\<rparr>) \<and>
   tick exampleEnv 2 silent
     \<lparr>check = exampleCheck\<lparr>nextrun := 1, Interval := 2 ^ 63 - 1\<rparr>, registry = {}, warnings = []\<rparr> =
   Inr \<lparr>check = exampleCheck\<lparr>nextrun := 0x8000000000000000, Interval := 2 ^ 63 - 1\<rparr>,
        registry = {}, warnings = []\<rparr> \<and>
   sint (0x8000000000000000 :: 64 word) = - (2 ^ 63) \<and>
   sint (0x8000000000000000 :: 64 word) < sint (1 :: 64 word)"
  by (simp add: tick_def exampleEnv_def exampleCheck_def silent_def runBashScript_def Split_def
      cleanupUnusedDimensions_def)

theorem tick_advances_nextrun_witness:
  "tick exampleEnv 2 silent \<lparr>check = exampleCheck, registry = {}, warnings = []\<rparr> =
     Inr \<lparr>check = exampleCheck\<lparr>nextrun := 60\<rparr>, registry = {}, warnings = []\<rparr> \<and>
   sint (60 :: 64 word) = sint (0 :: 64 word) + 60 \<and>
   tick exampleEnv 0 silent \<lparr>check = exampleCheck, registry = {}, warnings = []\<rparr> =
     Inr \<lparr>check = exampleCheck, registry = {}, warnings = []\<rparr> \<and>
   runCheck exampleEnv [Poll 2 silent, Poll 3 silent, Poll 61 silent]
     \<lparr>check = exampleCheck, registry = {}, warnings = []\<rparr> =
     Inr \<lparr>check = exampleCheck\<lparr>nextrun := 120\<rparr>, registry = {}, warnings = []\<rparr> \<and>
   sint (0 :: 64 word) \<le> sint (120 :: 64 word)"
proof -
  have r: "runCheck exampleEnv [Poll 2 silent, Poll 3 silent, Poll 61 silent]
     \<lparr>check = exampleCheck, registry = {}, warnings = []\<rparr> =
     Inr \<lparr>check = exampleCheck\<lparr>nextrun := 120\<rparr>, registry = {}, warnings = []\<rparr>"
    by (simp add: tick_def exampleEnv_def exampleCheck_def silent_def runBashScript_def Split_def
      cleanupUnusedDimensions_def)
  have t: "tick exampleEnv 2 silent \<lparr>check = exampleCheck, registry = {}, warnings = []\<rparr> =
     Inr \<lparr>check = exampleCheck\<lparr>nextrun := 60\<rparr>, registry = {}, warnings = []\<rparr>"
    by (simp add: tick_def exampleEnv_def exampleCheck_def silent_def runBashScript_def Split_def
      cleanupUnusedDimensions_def)
  have u: "tick exampleEnv 0 silent \<lparr>check = exampleCheck, registry = {}, warnings = []\<rparr> =
     Inr \<lparr>check = exampleCheck, registry = {}, warnings = []\<rparr>"
    by (simp add: tick_def exampleCheck_def)
  show ?thesis
    using tick_advances_nextrun [OF t] tick_advances_nextrun [OF u] t u r
    by (simp add: exampleCheck_def)
qed

section \<open>Recording an observation\<close>


section \<open>Checks of an unsupported metric type\<close>

lemma register_unsupported:
  assumes "MetricType (check w) \<noteq> ''Gauge''" and "metric (check w) = None"
  shows "registerMetricsForCheck L w v l =
           Inr (w\<lparr>check := (check w)\<lparr>resultCurrent := resultCurrent (check w) @ [l]\<rparr>,
                  warnings := warnings w @ [unsupportedWarning (MetricType (check w))]\<rparr>)"
proof -
  have "(check w)\<lparr>resultCurrent := resultCurrent (check w) @ [l], metric := None\<rparr> =
        (check w)\<lparr>resultCurrent := resultCurrent (check w) @ [l]\<rparr>"
    using assms(2) by (cases "check w") simp
  then show ?thesis
    using assms(1) by (simp add: registerMetricsForCheck_def Let_def unsupportedWarning_def)
qed

lemma recordLines_unsupported:
  assumes "recordLines E ls w = Inr w'"
    and "MetricType (check w) \<noteq> ''Gauge''" and "metric (check w) = None"
  shows "metric (check w') = None \<and> registry w' = registry w \<and>
         MetricType (check w') = MetricType (check w) \<and>
         warnings w' = warnings w @
           replicate (length (filter (\<lambda>x. x \<noteq> []) ls)) (unsupportedWarning (MetricType (check w)))"
  using assms
proof (induction ls arbitrary: w)
  case Nil
  then show ?case by simp
next
  case (Cons line ls)
  show ?case
  proof (cases "line = []")
    case True
    with Cons show ?thesis by simp
  next
    case False
    with Cons.prems(1) obtain v l where
      cr: "convertResult (floatOf E) line = Inr (v, l)"
      by (auto split: sum.splits)
    let ?w = "w\<lparr>check := (check w)\<lparr>resultCurrent := resultCurrent (check w) @ [l]\<rparr>,
                warnings := warnings w @ [unsupportedWarning (MetricType (check w))]\<rparr>"
    have "recordLines E ls ?w = Inr w'"
      using Cons.prems False cr by (simp add: register_unsupported)
    then have "metric (check w') = None \<and> registry w' = registry ?w \<and>
         MetricType (check w') = MetricType (check ?w) \<and>
         warnings w' = warnings ?w @
           replicate (length (filter (\<lambda>x. x \<noteq> []) ls)) (unsupportedWarning (MetricType (check ?w)))"
      using Cons.prems by (intro Cons.IH) simp_all
    then show ?thesis using False by (simp add: replicate_app_Cons_same)
  qed
qed

lemma removeStale_unsupported:
  "MetricType (check w) \<noteq> ''Gauge'' \<Longrightarrow> removeStale mts ls w = Inr w"
  by (induction ls) simp_all

lemma cleanup_unsupported:
  "MetricType (check w) \<noteq> ''Gauge'' \<Longrightarrow> cleanupUnusedDimensions mts w = Inr w"
  by (simp add: cleanupUnusedDimensions_def removeStale_unsupported)

lemma tick_unsupported:
  assumes "tick E now run w = Inr w'"
    and "MetricType (check w) \<noteq> ''Gauge''" and "metric (check w) = None"
  shows "metric (check w') = None \<and> registry w' = registry w \<and>
         MetricType (check w') = MetricType (check w)"
proof (cases "sint now > sint (nextrun (check w))")
  case False
  with assms show ?thesis by (simp add: tick_def)
next
  case True
  let ?c = "check w"
  let ?w1 = "w\<lparr>check := ?c\<lparr>resultLast := resultCurrent ?c, resultCurrent := []\<rparr>\<rparr>"
  obtain result failure where rb: "runBashScript (GOOS E) run (check ?w1) = (result, failure)"
    by (cases "runBashScript (GOOS E) run (check ?w1)")
  from assms(1) True rb obtain w2 w3 where
    w2: "(case failure of None \<Rightarrow> recordLines E (Split result CHR 0x0A) ?w1
          | Some e \<Rightarrow> Inr (?w1\<lparr>warnings := warnings ?w1 @
               [''Check '' @ Name ?c @ '' failed with error: '' @ e]\<rparr>)) = Inr w2"
    and w3: "cleanupUnusedDimensions (MapToString E) w2 = Inr w3"
    and w': "w' = w3\<lparr>check := (check w3)\<lparr>nextrun := nextrun (check w3) + word_of_int (Interval (check w3))\<rparr>\<rparr>"
    by (auto simp add: tick_def Let_def split: sum.splits)
  have 2: "metric (check w2) = None \<and> registry w2 = registry w \<and>
         MetricType (check w2) = MetricType (check w)"
  proof (cases failure)
    case None
    with w2 have "recordLines E (Split result CHR 0x0A) ?w1 = Inr w2" by simp
    from recordLines_unsupported [OF this] assms(2,3) show ?thesis by simp
  next
    case (Some e)
    with w2 assms(2,3) show ?thesis by auto
  qed
  then have "w3 = w2" using w3 assms(2) by (simp add: cleanup_unsupported)
  with 2 w' show ?thesis by simp
qed

lemma unregister_no_handle: "metric (check w) = None \<Longrightarrow> unregisterMetricsForCheck w = w"
  by (simp add: unregisterMetricsForCheck_def)

lemma runCheck_unsupported:
  assumes "runCheck E evs w = Inr w'"
    and "MetricType (check w) \<noteq> ''Gauge''" and "metric (check w) = None"
  shows "metric (check w') = None \<and> registry w' = registry w"
  using assms
proof (induction E evs w rule: runCheck.induct)
  case (1 E w)
  then show ?case by simp
next
  case (2 E evs w)
  then show ?case by (simp add: unregister_no_handle)
next
  case (3 E now run evs w)
  from "3.prems"(1) obtain w1 where t: "tick E now run w = Inr w1" and r: "runCheck E evs w1 = Inr w'"
    by (auto split: sum.splits)
  from tick_unsupported [OF t "3.prems"(2,3)] have
    1: "metric (check w1) = None" "registry w1 = registry w" "MetricType (check w1) \<noteq> ''Gauge''"
    using "3.prems"(2) by simp_all
  from "3.IH" [OF t r 1(3) 1(1)] 1(2) show ?case by simp
qed

text \<open>
  Claim C7. For a check whose metric type is not \<^verbatim>\<open>Gauge\<close> and which has no handle:
  recording an observation does not panic, creates no handle, leaves the registry and
  the configuration alone and logs one warning; the lines of one run log one warning
  for every non-empty line; and whatever the loop meets, as long as it runs and after
  it has stopped the check has no handle and the registry is as it was.
\<close>

theorem unsupported_metric_type:
  assumes "MetricType (check w) \<noteq> ''Gauge''" and "metric (check w) = None"
  shows "(\<exists>w'. registerMetricsForCheck L w v l = Inr w' \<and>
            metric (check w') = None \<and> registry w' = registry w \<and>
            warnings w' = warnings w @ [unsupportedWarning (MetricType (check w))] \<and>
            sameConfig (check w) (check w')) \<and>
         (\<forall>E ls w'. recordLines E ls w = Inr w' \<longrightarrow>
            warnings w' = warnings w @
              replicate (length (filter (\<lambda>x. x \<noteq> []) ls)) (unsupportedWarning (MetricType (check w)))) \<and>
         (\<forall>E evs w'. runCheck E evs w = Inr w' \<longrightarrow>
            metric (check w') = None \<and> registry w' = registry w)"
proof (intro conjI allI impI)
  show "\<exists>w'. registerMetricsForCheck L w v l = Inr w' \<and>
            metric (check w') = None \<and> registry w' = registry w \<and>
            warnings w' = warnings w @ [unsupportedWarning (MetricType (check w))] \<and>
            sameConfig (check w) (check w')"
    using assms by (simp add: register_unsupported sameConfig_def)
next
  fix E ls w'
  assume "recordLines E ls w = Inr w'"
  from recordLines_unsupported [OF this assms]
  show "warnings w' = warnings w @
      replicate (length (filter (\<lambda>x. x \<noteq> []) ls)) (unsupportedWarning (MetricType (check w)))"
    by simp
next
  fix E evs w'
  assume r: "runCheck E evs w = Inr w'"
  from runCheck_unsupported [OF r assms] show "metric (check w') = None" by simp
  from runCheck_unsupported [OF r assms] show "registry w' = registry w" by simp
qed

theorem unsupported_metric_type_witness:
  "registerMetricsForCheck (prom exampleEnv)
     \<lparr>check = exampleCheck\<lparr>MetricType := ''Histogram''\<rparr>, registry = {}, warnings = []\<rparr>
     1 Map.empty =
   Inr \<lparr>check = exampleCheck\<lparr>MetricType := ''Histogram'', resultCurrent := [Map.empty]\<rparr>,
        registry = {}, warnings = [''Metric type Counter not implemented yet!'']\<rparr> \<and>
   runCheck exampleEnv [Poll 1 (prints ''1''), Poll 61 (prints ''2|disk=sda'')]
     \<lparr>check = exampleCheck\<lparr>MetricType := ''Histogram''\<rparr>, registry = {}, warnings = []\<rparr> =
   Inr \<lparr>check = exampleCheck
          \<lparr>MetricType := ''Histogram'', nextrun := 120,
           resultCurrent := [[''disk'' \<mapsto> ''sda'']], resultLast := [Map.empty]\<rparr>,
        registry = {},
        warnings = [''Metric type Counter not implemented yet!'',
                    ''Metric type Counter not implemented yet!'']\<rparr>"
proof -
  let ?w = "\<lparr>check = exampleCheck\<lparr>MetricType := ''Histogram''\<rparr>, registry = {}, warnings = []\<rparr>"
  have t: "MetricType (check ?w) \<noteq> ''Gauge''" and m: "metric (check ?w) = None"
    by (simp_all add: exampleCheck_def)
  have r: "runCheck exampleEnv [Poll 1 (prints ''1''), Poll 61 (prints ''2|disk=sda'')] ?w =
     Inr \<lparr>check = exampleCheck
          \<lparr>MetricType := ''Histogram'', nextrun := 120,
           resultCurrent := [[''disk'' \<mapsto> ''sda'']], resultLast := [Map.empty]\<rparr>,
        registry = {},
        warnings = [''Metric type Counter not implemented yet!'',
                    ''Metric type Counter not implemented yet!'']\<rparr>"
    by (simp add: tick_def exampleEnv_def exampleCheck_def prints_def runBashScript_def Split_def
        SplitN_def numeral_2_eq_2
        cleanupUnusedDimensions_def convertResult_def Contains_def ParseFloat_def
        registerMetricsForCheck_def Let_def)
  have o: "registerMetricsForCheck (prom exampleEnv) ?w 1 Map.empty =
     Inr \<lparr>check = exampleCheck\<lparr>MetricType := ''Histogram'', resultCurrent := [Map.empty]\<rparr>,
        registry = {}, warnings = [''Metric type Counter not implemented yet!'']\<rparr>"
    by (simp add: registerMetricsForCheck_def Let_def exampleCheck_def)
  show ?thesis
    using unsupported_metric_type [OF t m, of "prom exampleEnv" 1 Map.empty] r o
    by simp
qed

section \<open>Reconciliation\<close>

lemma singleton_map_eq: "([k \<mapsto> a] = [k \<mapsto> b]) = (a = b)"
  by (metis map_upd_eqD1)

lemma list_ex_DeepEqual: "list_ex (DeepEqual l) ls \<longleftrightarrow> l \<in> set ls"
  by (auto simp add: list_ex_iff DeepEqual_def)

lemma removeStale_gauge:
  assumes "MetricType (check w) = ''Gauge''" and "metric (check w) = Some g"
  shows "\<exists>w'. removeStale mts ls w = Inr w' \<and>
           check w' = (check w)\<lparr>metric := Some (g\<lparr>gv_children := gv_children g |`
              (- {l \<in> set ls. l \<notin> set (resultCurrent (check w))})\<rparr>)\<rparr> \<and>
           registry w' = registry w"
  using assms
proof (induction ls arbitrary: w g)
  case Nil
  then show ?case by (cases "check w") simp
next
  case (Cons l ls)
  show ?case
  proof (cases "l \<in> set (resultCurrent (check w))")
    case True
    then have "{x \<in> set (l # ls). x \<notin> set (resultCurrent (check w))} =
               {x \<in> set ls. x \<notin> set (resultCurrent (check w))}" by auto
    with Cons True show ?thesis by (simp add: list_ex_DeepEqual)
  next
    case False
    let ?g = "g\<lparr>gv_children := (gv_children g)(l := None)\<rparr>"
    let ?w = "w\<lparr>check := (check w)\<lparr>metric := Some ?g\<rparr>,
                warnings := (if l \<in> dom (gv_children g) then warnings w
                  else warnings w @ [''Failed to delete stale metric vector with label '' @ mts l @
                         '' from check '' @ Name (check w)])\<rparr>"
    have step: "removeStale mts (l # ls) w = removeStale mts ls ?w"
      using False Cons.prems by (simp add: list_ex_DeepEqual Delete_def del: append.simps)
    have "\<exists>w'. removeStale mts ls ?w = Inr w' \<and>
           check w' = (check ?w)\<lparr>metric := Some (?g\<lparr>gv_children := gv_children ?g |`
              (- {x \<in> set ls. x \<notin> set (resultCurrent (check ?w))})\<rparr>)\<rparr> \<and>
           registry w' = registry ?w"
      using Cons.prems by (intro Cons.IH) simp_all
    then obtain w' where w': "removeStale mts ls ?w = Inr w'"
      "check w' = (check ?w)\<lparr>metric := Some (?g\<lparr>gv_children := gv_children ?g |`
              (- {x \<in> set ls. x \<notin> set (resultCurrent (check ?w))})\<rparr>)\<rparr>"
      "registry w' = registry ?w" by blast
    have s: "{x \<in> set (l # ls). x \<notin> set (resultCurrent (check w))} =
             insert l {x \<in> set ls. x \<notin> set (resultCurrent (check w))}"
      using False by auto
    have "(gv_children g)(l := None) |` (- {x \<in> set ls. x \<notin> set (resultCurrent (check w))}) =
          gv_children g |` (- {x \<in> set (l # ls). x \<notin> set (resultCurrent (check w))})"
      unfolding s by (auto simp add: restrict_map_def fun_eq_iff)
    with w' step show ?thesis by simp
  qed
qed

text \<open>
  Claim C1, as the code has it. When \<^verbatim>\<open>resultCurrent\<close> is empty, reconciliation changes
  nothing, and neither does it for a check that is not a gauge. For a gauge check with
  a handle and a non-empty \<^verbatim>\<open>resultCurrent\<close>, reconciliation does not panic, removes
  from the vector exactly the series of the stale label-sets (those of \<^verbatim>\<open>resultLast\<close>
  with no equal map in \<^verbatim>\<open>resultCurrent\<close>), leaves every other series as it is, and
  changes nothing else of the check and nothing of the registry.
\<close>

theorem cleanupUnusedDimensions_reconciles:
  "(resultCurrent (check w) = [] \<longrightarrow> cleanupUnusedDimensions mts w = Inr w) \<and>
   (MetricType (check w) \<noteq> ''Gauge'' \<longrightarrow> cleanupUnusedDimensions mts w = Inr w) \<and>
   (\<forall>g. resultCurrent (check w) \<noteq> [] \<and> MetricType (check w) = ''Gauge'' \<and>
        metric (check w) = Some g \<longrightarrow>
      (\<exists>w'. cleanupUnusedDimensions mts w = Inr w' \<and>
         check w' = (check w)\<lparr>metric :=
           Some (g\<lparr>gv_children := gv_children g |` (- stale (check w))\<rparr>)\<rparr> \<and>
         registry w' = registry w))"
proof (intro conjI allI impI)
  assume "resultCurrent (check w) = []"
  then show "cleanupUnusedDimensions mts w = Inr w"
    by (simp add: cleanupUnusedDimensions_def)
next
  assume "MetricType (check w) \<noteq> ''Gauge''"
  then show "cleanupUnusedDimensions mts w = Inr w"
    by (rule cleanup_unsupported)
next
  fix g
  assume h: "resultCurrent (check w) \<noteq> [] \<and> MetricType (check w) = ''Gauge'' \<and>
        metric (check w) = Some g"
  then have "cleanupUnusedDimensions mts w = removeStale mts (resultLast (check w)) w"
    by (simp add: cleanupUnusedDimensions_def)
  with removeStale_gauge [of w g mts "resultLast (check w)"] h
  show "\<exists>w'. cleanupUnusedDimensions mts w = Inr w' \<and>
         check w' = (check w)\<lparr>metric :=
           Some (g\<lparr>gv_children := gv_children g |` (- stale (check w))\<rparr>)\<rparr> \<and>
         registry w' = registry w"
    by (simp add: stale_def)
qed

theorem cleanupUnusedDimensions_reconciles_witness:
  "cleanupUnusedDimensions (MapToString exampleEnv)
     \<lparr>check = exampleCheck
        \<lparr>resultLast := [[''disk'' \<mapsto> ''sda''], [''disk'' \<mapsto> ''sdb'']],
         resultCurrent := [[''disk'' \<mapsto> ''sda'']],
         metric := Some (exampleGauge
           \<lparr>gv_children := [[''disk'' \<mapsto> ''sda''] \<mapsto> 1, [''disk'' \<mapsto> ''sdb''] \<mapsto> 2]\<rparr>)\<rparr>,
      registry = {''disk_usage''}, warnings = []\<rparr> =
   Inr \<lparr>check = exampleCheck
        \<lparr>resultLast := [[''disk'' \<mapsto> ''sda''], [''disk'' \<mapsto> ''sdb'']],
         resultCurrent := [[''disk'' \<mapsto> ''sda'']],
         metric := Some exampleGauge\<rparr>,
      registry = {''disk_usage''}, warnings = []\<rparr> \<and>
   cleanupUnusedDimensions (MapToString exampleEnv)
     \<lparr>check = exampleCheck, registry = {}, warnings = []\<rparr> =
   Inr \<lparr>check = exampleCheck, registry = {}, warnings = []\<rparr> \<and>
   cleanupUnusedDimensions (MapToString exampleEnv)
     \<lparr>check = exampleCheck
        \<lparr>MetricType := ''Histogram'', resultLast := [[''disk'' \<mapsto> ''sda'']],
         resultCurrent := [Map.empty]\<rparr>,
      registry = {}, warnings = []\<rparr> =
   Inr \<lparr>check = exampleCheck
        \<lparr>MetricType := ''Histogram'', resultLast := [[''disk'' \<mapsto> ''sda'']],
         resultCurrent := [Map.empty]\<rparr>,
      registry = {}, warnings = []\<rparr>"
proof -
  let ?w = "\<lparr>check = exampleCheck
        \<lparr>resultLast := [[''disk'' \<mapsto> ''sda''], [''disk'' \<mapsto> ''sdb'']],
         resultCurrent := [[''disk'' \<mapsto> ''sda'']],
         metric := Some (exampleGauge
           \<lparr>gv_children := [[''disk'' \<mapsto> ''sda''] \<mapsto> 1, [''disk'' \<mapsto> ''sdb''] \<mapsto> 2]\<rparr>)\<rparr>,
      registry = {''disk_usage''}, warnings = []\<rparr>"
  have e: "cleanupUnusedDimensions (MapToString exampleEnv) ?w =
     Inr \<lparr>check = exampleCheck
        \<lparr>resultLast := [[''disk'' \<mapsto> ''sda''], [''disk'' \<mapsto> ''sdb'']],
         resultCurrent := [[''disk'' \<mapsto> ''sda'']],
         metric := Some exampleGauge\<rparr>,
      registry = {''disk_usage''}, warnings = []\<rparr>"
    by (simp add: cleanupUnusedDimensions_def exampleCheck_def exampleGauge_def exampleEnv_def
        Delete_def DeepEqual_def singleton_map_eq)
  show ?thesis
    using cleanupUnusedDimensions_reconciles [of ?w "MapToString exampleEnv"]
      cleanupUnusedDimensions_reconciles
        [of "\<lparr>check = exampleCheck, registry = {}, warnings = []\<rparr>" "MapToString exampleEnv"]
      cleanupUnusedDimensions_reconciles
        [of "\<lparr>check = exampleCheck
              \<lparr>MetricType := ''Histogram'', resultLast := [[''disk'' \<mapsto> ''sda'']],
               resultCurrent := [Map.empty]\<rparr>,
            registry = {}, warnings = []\<rparr>" "MapToString exampleEnv"] e
    by (simp add: exampleCheck_def)
qed

text \<open>
  With an empty \<^verbatim>\<open>resultCurrent\<close> the claim fails: the label-set \<^verbatim>\<open>{disk: sda}\<close> is in
  \<^verbatim>\<open>resultLast\<close> and has no counterpart in \<^verbatim>\<open>resultCurrent\<close>, and reconciliation leaves
  its series in the vector.
\<close>

theorem cleanupUnusedDimensions_empty_counterexample:
  "cleanupUnusedDimensions (MapToString exampleEnv)
     \<lparr>check = exampleCheck\<lparr>resultLast := [[''disk'' \<mapsto> ''sda'']], resultCurrent := [],
                            metric := Some exampleGauge\<rparr>,
      registry = {''disk_usage''}, warnings = []\<rparr> =
   Inr \<lparr>check = exampleCheck\<lparr>resultLast := [[''disk'' \<mapsto> ''sda'']], resultCurrent := [],
                            metric := Some exampleGauge\<rparr>,
        registry = {''disk_usage''}, warnings = []\<rparr> \<and>
   [''disk'' \<mapsto> ''sda''] \<in> stale (exampleCheck\<lparr>resultLast := [[''disk'' \<mapsto> ''sda'']], resultCurrent := [],
                            metric := Some exampleGauge\<rparr>) \<and>
   gv_children exampleGauge [''disk'' \<mapsto> ''sda''] = Some 1"
  by (simp add: cleanupUnusedDimensions_def stale_def exampleCheck_def exampleGauge_def)

text \<open>
  The state of that example is one the loop reaches: the first run reports
  \<^verbatim>\<open>1|disk=sda\<close>, the second run fails. And where the second run reports again, the
  series that is no longer reported is removed.
\<close>

lemma stale_run_example:
  "runCheck exampleEnv [Poll 1 (prints ''1|disk=sda''), Poll 61 (fails ''timeout'')]
     \<lparr>check = exampleCheck, registry = {}, warnings = []\<rparr> =
   Inr \<lparr>check = exampleCheck
          \<lparr>nextrun := 120, resultCurrent := [], resultLast := [[''disk'' \<mapsto> ''sda'']],
           metric := Some exampleGauge\<rparr>,
        registry = {''disk_usage''},
        warnings = [''Check disk_usage failed with error: Script failed with error: timeout'']\<rparr>"
  by (simp add: tick_def exampleEnv_def exampleCheck_def exampleGauge_def prints_def fails_def
      runBashScript_def Split_def SplitN_def numeral_2_eq_2
      cleanupUnusedDimensions_def convertResult_def Contains_def ParseFloat_def
      registerMetricsForCheck_def Let_def NewGaugeVec_def MustRegister_def WithSet_def
      convertMapKeysToSlice_def)

lemma reconcile_example:
  "runCheck exampleEnv
     [Poll 1 (prints (''1|disk=sda'' @ [CHR 0x0A] @ ''2|disk=sdb'')), Poll 61 (prints ''1|disk=sda'')]
     \<lparr>check = exampleCheck, registry = {}, warnings = []\<rparr> =
   Inr \<lparr>check = exampleCheck
          \<lparr>nextrun := 120, resultCurrent := [[''disk'' \<mapsto> ''sda'']],
           resultLast := [[''disk'' \<mapsto> ''sda''], [''disk'' \<mapsto> ''sdb'']],
           metric := Some exampleGauge\<rparr>,
        registry = {''disk_usage''},
        warnings = []\<rparr>"
  by (simp add: tick_def exampleEnv_def exampleCheck_def exampleGauge_def prints_def fails_def
      runBashScript_def Split_def SplitN_def numeral_2_eq_2
      cleanupUnusedDimensions_def convertResult_def Contains_def ParseFloat_def
      registerMetricsForCheck_def Let_def NewGaugeVec_def MustRegister_def WithSet_def
      convertMapKeysToSlice_def Delete_def DeepEqual_def singleton_map_eq)

section \<open>The handle of a check\<close>








text \<open>
  When recording an observation for a gauge check returns: the label values must be
  acceptable to the client, and either there is no handle, the descriptor is acceptable
  and the name is not registered, or there is a handle and the keys of the labels are
  its label names. Otherwise \<^verbatim>\<open>MustRegister\<close> or \<^verbatim>\<open>With\<close> panics.
\<close>

lemma register_gauge_returns:
  assumes "MetricType (check w) = ''Gauge''"
  shows "(\<exists>w'. registerMetricsForCheck L w v l = Inr w') \<longleftrightarrow>
           (\<forall>k x. l k = Some x \<longrightarrow> validValue L x) \<and>
           (case metric (check w) of
              None \<Rightarrow> validDesc L (Name (check w)) (dom l) \<and> Name (check w) \<notin> registry w
            | Some g \<Rightarrow> dom l = gv_labelNames g)"
  using assms
  by (auto simp add: registerMetricsForCheck_def Let_def NewGaugeVec_def MustRegister_def
      WithSet_def convertMapKeysToSlice_def split: option.splits)




end
